theory Spec2Isabelle
  imports Main "HOL-Library.Multiset"
begin

section \<open>Python strings and the builtins the chatbot relies on\<close>

text \<open>
  A Python \<open>str\<close> is modelled as a \<open>string\<close>, one \<open>char\<close> per code point (so the
  model covers code points below 256). \<open>len\<close> is \<open>length\<close>, \<open>s[:n]\<close> is \<open>take n s\<close>,
  \<open>+\<close> on strings is \<open>@\<close>.
\<close>

text \<open>The characters for which \<open>str.isspace\<close> holds, among code points below 256.\<close>

definition is_space :: "char \<Rightarrow> bool" where
  "is_space c = (c \<in> set [CHR 0x09, CHR 0x0A, CHR 0x0B, CHR 0x0C, CHR 0x0D,
                            CHR 0x1C, CHR 0x1D, CHR 0x1E, CHR 0x1F, CHR 0x20,
                            CHR 0x85, CHR 0xA0])"

text \<open>\<open>s.strip()\<close>: leading and trailing whitespace removed.\<close>

definition strip :: "string \<Rightarrow> string" where
  "strip s = rev (dropWhile is_space (rev (dropWhile is_space s)))"

text \<open>
  \<open>s.split(sep)\<close> for a one-character separator: every occurrence of the separator ends a
  component, and the empty string has the single component \<open>""\<close>.
\<close>

fun str_split :: "char \<Rightarrow> string \<Rightarrow> string list" where
  "str_split sep [] = [[]]"
| "str_split sep (c # cs) =
     (if c = sep then [] # str_split sep cs
      else (case str_split sep cs of
              [] \<Rightarrow> [[c]]
            | p # ps \<Rightarrow> (c # p) # ps))"

text \<open>\<open>sub in s\<close> on strings: \<open>sub\<close> occurs in \<open>s\<close> as a contiguous substring.\<close>

definition startswith :: "string \<Rightarrow> string \<Rightarrow> bool" where
  "startswith s p = (take (length p) s = p)"

fun str_in :: "string \<Rightarrow> string \<Rightarrow> bool" where
  "str_in sub [] = (sub = [])"
| "str_in sub (c # cs) = (startswith (c # cs) sub \<or> str_in sub cs)"

text \<open>\<open>sep.join(parts)\<close>.\<close>

fun join :: "string \<Rightarrow> string list \<Rightarrow> string" where
  "join sep [] = []"
| "join sep [p] = p"
| "join sep (p # q # ps) = p @ sep @ join sep (q # ps)"

text \<open>\<open>str(n)\<close> for an integer, as an f-string renders it: decimal, with \<open>-\<close> when negative.\<close>

definition digit_char :: "nat \<Rightarrow> char" where
  "digit_char d = ''0123456789'' ! d"

fun str_nat :: "nat \<Rightarrow> string" where
  "str_nat n = (if n < 10 then [digit_char n]
                else str_nat (n div 10) @ [digit_char (n mod 10)])"

definition str_int :: "int \<Rightarrow> string" where
  "str_int i = (if i < 0 then CHR ''-'' # str_nat (nat (- i)) else str_nat (nat i))"

text \<open>
  \<open>int(s)\<close> in base 10. Python strips surrounding whitespace, accepts one optional sign,
  and then wants a non-empty run of decimal digits in which single underscores may stand
  between digits; anything else raises \<open>ValueError\<close>. The whitespace \<open>int\<close> strips is
  narrower than \<open>str.isspace\<close>: tab, line feed, vertical tab, form feed, carriage
  return, space, and of the code points from 128 on, 0x85 and 0xA0; the separators 0x1C
  to 0x1F are not stripped, so \<open>int("\x1c5")\<close> raises. (The interpreter's configurable cap
  on the number of digits is outside the model.)
\<close>

datatype error = FileNotFoundError | ValueError | KeyError string

definition is_int_space :: "char \<Rightarrow> bool" where
  "is_int_space c = (c \<in> set [CHR 0x09, CHR 0x0A, CHR 0x0B, CHR 0x0C, CHR 0x0D, CHR 0x20,
                                CHR 0x85, CHR 0xA0])"

definition int_strip :: "string \<Rightarrow> string" where
  "int_strip s = rev (dropWhile is_int_space (rev (dropWhile is_int_space s)))"

definition is_digit :: "char \<Rightarrow> bool" where
  "is_digit c = (c \<in> set ''0123456789'')"

definition digit_val :: "char \<Rightarrow> nat" where
  "digit_val c = of_char c - 48"

definition digits_value :: "string \<Rightarrow> nat" where
  "digits_value ds = foldl (\<lambda>n c. 10 * n + digit_val c) 0 ds"

definition valid_digits :: "string \<Rightarrow> bool" where
  "valid_digits body =
     list_all (\<lambda>g. g \<noteq> [] \<and> list_all is_digit g) (str_split (CHR ''_'') body)"

definition py_int :: "string \<Rightarrow> error + int" where
  "py_int s =
     (let t = int_strip s;
          neg = (t \<noteq> [] \<and> hd t = CHR ''-'');
          body = (if t \<noteq> [] \<and> (hd t = CHR ''-'' \<or> hd t = CHR ''+'') then tl t else t)
      in if valid_digits body
         then (let v = int (digits_value (filter (\<lambda>c. c \<noteq> CHR ''_'') body))
               in Inr (if neg then - v else v))
         else Inl ValueError)"

section \<open>Timestamp links (\<open>chatbot.py\<close>)\<close>

text \<open>
  \<open>_time_to_seconds\<close>: the two unpacking assignments \<open>minutes, seconds = map(int, parts)\<close>
  and \<open>hours, minutes, seconds = map(int, parts)\<close> convert the components left to right
  and raise at the first one \<open>int\<close> rejects. Any other number of components returns 0.
\<close>

definition time_to_seconds :: "string \<Rightarrow> error + int" where
  "time_to_seconds time_str =
     (case str_split (CHR '':'') time_str of
        [p1, p2] \<Rightarrow>
          (case py_int p1 of Inl e \<Rightarrow> Inl e | Inr minutes \<Rightarrow>
           (case py_int p2 of Inl e \<Rightarrow> Inl e | Inr seconds \<Rightarrow>
              Inr (minutes * 60 + seconds)))
      | [p1, p2, p3] \<Rightarrow>
          (case py_int p1 of Inl e \<Rightarrow> Inl e | Inr hours \<Rightarrow>
           (case py_int p2 of Inl e \<Rightarrow> Inl e | Inr minutes \<Rightarrow>
           (case py_int p3 of Inl e \<Rightarrow> Inl e | Inr seconds \<Rightarrow>
              Inr (hours * 3600 + minutes * 60 + seconds))))
      | _ \<Rightarrow> Inr 0)"

text \<open>
  \<open>_build_timestamp_link\<close>: an empty URL returns \<open>""\<close> before the clock string is looked
  at; otherwise the seconds are computed first, so a \<open>ValueError\<close> of \<open>_time_to_seconds\<close>
  leaves the function before any link is built.
\<close>

definition build_timestamp_link :: "string \<Rightarrow> string \<Rightarrow> error + string" where
  "build_timestamp_link url time_str =
     (if url = [] then Inr []
      else (case time_to_seconds time_str of
              Inl e \<Rightarrow> Inl e
            | Inr seconds \<Rightarrow>
                if str_in ''youtube.com'' url \<or> str_in ''youtu.be'' url
                then (let separator = (if str_in ''?'' url then ''&'' else ''?'')
                      in Inr (url @ separator @ ''t='' @ str_int seconds))
                else if str_in ''spotify.com'' url
                then Inr (url @ ''#t='' @ str_int seconds)
                else Inr (url @ ''#t='' @ str_int seconds)))"

text \<open>
  A clock component "that is a non-negative integer": a non-empty run of decimal digits.
  Its value is \<open>digits_value\<close>.
\<close>

definition is_decimal :: "string \<Rightarrow> bool" where
  "is_decimal ds = (ds \<noteq> [] \<and> list_all is_digit ds)"

text \<open>
  A component that cannot be the text of an integer, whatever the notation: it is empty,
  or it holds a character that is neither a decimal digit, a sign, an underscore, nor
  whitespace that \<open>int\<close> strips.
\<close>

definition not_a_number :: "string \<Rightarrow> bool" where
  "not_a_number p =
     (p = [] \<or> list_ex (\<lambda>c. \<not> is_digit c \<and> c \<noteq> CHR ''+'' \<and> c \<noteq> CHR ''-''
                          \<and> c \<noteq> CHR ''_'' \<and> \<not> is_int_space c) p)"

section \<open>The chatbot state (\<open>chatbot.py\<close>)\<close>

text \<open>
  \<open>self.episodes\<close> is a Python dict from episode id to a dict with the five keys
  \<open>title\<close>, \<open>number\<close>, \<open>video_url\<close>, \<open>audio_url\<close>, \<open>transcript\<close>, always written
  together. The inner dict is a record; the outer one is an association list in the
  dict's iteration order, because \<open>list_episodes\<close> sorts its items stably. Assigning to
  a key that is present replaces the value and keeps the key's position; assigning to
  a new key appends it.
\<close>

record episode =
  title :: string
  number :: int
  video_url :: string
  audio_url :: string
  transcript :: string

fun dict_set :: "'k \<Rightarrow> 'v \<Rightarrow> ('k \<times> 'v) list \<Rightarrow> ('k \<times> 'v) list" where
  "dict_set k v [] = [(k, v)]"
| "dict_set k v ((k', v') # d) =
     (if k' = k then (k, v) # d else (k', v') # dict_set k v d)"

definition dict_get :: "('k \<times> 'v) list \<Rightarrow> 'k \<Rightarrow> 'v option" where
  "dict_get d k = map_of d k"

text \<open>The document \<open>add_transcript\<close> and \<open>load_transcripts\<close> hand to the search index.\<close>

record doc =
  episode_id :: string
  episode_title :: string
  episode_number :: int
  doc_text :: string

text \<open>
  The index (\<open>minsearch.Index\<close>) is a library outside the repository. The chatbot only
  ever calls \<open>index_documents\<close> and \<open>search\<close> on it, so its state is modelled by what
  the chatbot has done to it: the batches of documents submitted, in call order,
  starting from the empty \<open>contents=[]\<close>. What \<open>search\<close> answers is a parameter of the
  model (see \<open>answer_question\<close>), free to depend on that history in any way.
\<close>

type_synonym index = "doc list list"

definition index_documents :: "index \<Rightarrow> doc list \<Rightarrow> index" where
  "index_documents ix docs = ix @ [docs]"

record chatbot =
  episodes :: "(string \<times> episode) list"
  index :: index

text \<open>The state after \<open>__init__\<close>: no episodes, an index created with no contents.\<close>

definition new_chatbot :: chatbot where
  "new_chatbot = \<lparr>episodes = [], index = []\<rparr>"

definition add_transcript ::
  "chatbot \<Rightarrow> string \<Rightarrow> string \<Rightarrow> int \<Rightarrow> string \<Rightarrow> string \<Rightarrow> string \<Rightarrow> chatbot" where
  "add_transcript self ep_id ep_title ep_number transcript_text v_url a_url =
     self\<lparr>episodes :=
            dict_set ep_id
              \<lparr>title = ep_title, number = ep_number, video_url = v_url,
               audio_url = a_url, transcript = transcript_text\<rparr>
              (episodes self),
          index :=
            index_documents (index self)
              [\<lparr>episode_id = ep_id, episode_title = ep_title,
                episode_number = ep_number, doc_text = transcript_text\<rparr>]\<rparr>"

text \<open>
  A record of the transcript file, as \<open>json.load\<close> returns it: a dict in which any key
  may be absent. \<open>load_transcripts\<close> reads \<open>episode_id\<close>, \<open>episode_title\<close>,
  \<open>episode_number\<close> and \<open>transcript\<close> by subscript, which raises \<open>KeyError\<close> on an
  absent key, and \<open>video_url\<close>, \<open>audio_url\<close> with \<open>episode.get(key, "")\<close>. The
  values that are present are taken to have the types the docstring shows (strings, and
  an integer for the number).
\<close>

record json_episode =
  j_episode_id :: "string option"
  j_episode_title :: "string option"
  j_episode_number :: "int option"
  j_transcript :: "string option"
  j_video_url :: "string option"
  j_audio_url :: "string option"

definition get_or :: "'a option \<Rightarrow> 'a \<Rightarrow> 'a" where
  "get_or v dflt = (case v of None \<Rightarrow> dflt | Some x \<Rightarrow> x)"

text \<open>
  What the loop body reads from one record, in the order of the source: the id first,
  then the values of the metadata dict (title, number, the two URLs, transcript). All of
  them are evaluated before \<open>self.episodes[episode_id]\<close> is assigned, so a record that
  lacks a required key raises before anything of it is stored. The result is the id,
  the metadata to store and the document to index.
\<close>

definition read_record :: "json_episode \<Rightarrow> error + (string \<times> episode \<times> doc)" where
  "read_record e =
     (case j_episode_id e of
        None \<Rightarrow> Inl (KeyError ''episode_id'')
      | Some ep_id \<Rightarrow>
     (case j_episode_title e of
        None \<Rightarrow> Inl (KeyError ''episode_title'')
      | Some ep_title \<Rightarrow>
     (case j_episode_number e of
        None \<Rightarrow> Inl (KeyError ''episode_number'')
      | Some ep_number \<Rightarrow>
     (case j_transcript e of
        None \<Rightarrow> Inl (KeyError ''transcript'')
      | Some transcript_text \<Rightarrow>
          Inr (ep_id,
               \<lparr>title = ep_title, number = ep_number,
                video_url = get_or (j_video_url e) [], audio_url = get_or (j_audio_url e) [],
                transcript = transcript_text\<rparr>,
               \<lparr>episode_id = ep_id, episode_title = ep_title,
                episode_number = ep_number, doc_text = transcript_text\<rparr>)))))"

text \<open>
  The \<open>for episode in episodes\<close> loop: the registry and the list \<open>docs\<close> as they grow.
  An exception ends the loop and leaves the registry as the records before it made it.
\<close>

fun load_loop ::
  "(string \<times> episode) list \<Rightarrow> doc list \<Rightarrow> json_episode list
     \<Rightarrow> error option \<times> (string \<times> episode) list \<times> doc list" where
  "load_loop eps docs [] = (None, eps, docs)"
| "load_loop eps docs (e # es) =
     (case read_record e of
        Inl err \<Rightarrow> (Some err, eps, docs)
      | Inr (ep_id, ep, d) \<Rightarrow> load_loop (dict_set ep_id ep eps) (docs @ [d]) es)"


text \<open>
  For stating what a load does: a record with the four required keys, and what the loop
  body stores and indexes for a record.
\<close>

definition complete :: "json_episode \<Rightarrow> bool" where
  "complete e =
     (j_episode_id e \<noteq> None \<and> j_episode_title e \<noteq> None
      \<and> j_episode_number e \<noteq> None \<and> j_transcript e \<noteq> None)"

definition store_record :: "(string \<times> episode) list \<Rightarrow> json_episode \<Rightarrow> (string \<times> episode) list" where
  "store_record eps e =
     (case read_record e of Inl err \<Rightarrow> eps | Inr (ep_id, ep, d) \<Rightarrow> dict_set ep_id ep eps)"

definition docs_of_record :: "json_episode \<Rightarrow> doc list" where
  "docs_of_record e = (case read_record e of Inl err \<Rightarrow> [] | Inr (ep_id, ep, d) \<Rightarrow> [d])"

text \<open>\<open>list_episodes\<close>: Python's \<open>sorted\<close> is stable, as \<open>sort_key\<close> is.\<close>

record episode_info =
  info_episode_id :: string
  info_title :: string
  info_number :: int

definition episode_info_of :: "string \<times> episode \<Rightarrow> episode_info" where
  "episode_info_of item =
     \<lparr>info_episode_id = fst item, info_title = title (snd item), info_number = number (snd item)\<rparr>"

definition list_episodes :: "chatbot \<Rightarrow> episode_info list" where
  "list_episodes self =
     map episode_info_of (sort_key (\<lambda>x. number (snd x)) (episodes self))"

section \<open>Answering a question (\<open>chatbot.py\<close>, \<open>llm.py\<close>)\<close>

text \<open>
  A search result is a dict the index returns; \<open>answer_question\<close> reads it only through
  \<open>result.get(key, default)\<close>, so each of the four keys may be absent.
\<close>

record hit =
  hit_episode_id :: "string option"
  hit_episode_title :: "string option"
  hit_episode_number :: "int option"
  hit_text :: "string option"

text \<open>
  A source is a dict whose keys \<open>video_link\<close> and \<open>audio_link\<close> exist only when set, and
  whose \<open>episode_number\<close> is the hit's number or the default \<open>""\<close>: an association list
  of Python values.
\<close>

datatype pyval = PStr string | PInt int

type_synonym source = "(string \<times> pyval) list"

text \<open>The body of the \<open>for i, result in enumerate(search_results, 1)\<close> loop.\<close>

definition context_part :: "hit \<Rightarrow> string" where
  "context_part result =
     ''[Episode: '' @ get_or (hit_episode_title result) ''Unknown'' @ ''] ''
       @ get_or (hit_text result) []"

definition build_source :: "(string \<times> episode) list \<Rightarrow> hit \<Rightarrow> source" where
  "build_source eps result =
     (let ep_id = get_or (hit_episode_id result) [];
          ep_title = get_or (hit_episode_title result) ''Unknown'';
          text = get_or (hit_text result) [];
          episode = dict_get eps ep_id;
          source0 =
            [(''episode'', PStr ep_title),
             (''episode_number'',
                (case hit_episode_number result of None \<Rightarrow> PStr [] | Some n \<Rightarrow> PInt n)),
             (''segment'', PStr (if length text > 200 then take 200 text @ ''...'' else text)),
             (''timestamp'', PStr [])];
          v_url = (case episode of None \<Rightarrow> [] | Some ep \<Rightarrow> video_url ep);
          a_url = (case episode of None \<Rightarrow> [] | Some ep \<Rightarrow> audio_url ep);
          source1 = (if v_url \<noteq> [] then dict_set ''video_link'' (PStr v_url) source0 else source0);
          source2 = (if a_url \<noteq> [] then dict_set ''audio_link'' (PStr a_url) source1 else source1)
      in source2)"

fun assemble ::
  "(string \<times> episode) list \<Rightarrow> string list \<Rightarrow> source list \<Rightarrow> hit list
     \<Rightarrow> string list \<times> source list" where
  "assemble eps context_parts srcs [] = (context_parts, srcs)"
| "assemble eps context_parts srcs (result # rest) =
     assemble eps (context_parts @ [context_part result]) (srcs @ [build_source eps result]) rest"

text \<open>
  The two collaborators are parameters. \<open>search\<close> stands for \<open>self.index.search\<close>: given
  the index, the query, the fields and \<open>max_results\<close>, it returns the hits or raises.
  \<open>generate\<close> stands for \<open>GroqLLM.generate\<close>: given the prompt and \<open>max_tokens\<close>, it returns
  the completion or raises. An exception of either carries its message. Every call made
  to a collaborator is recorded, in order, next to the result.
\<close>

datatype backend_exception = Raised string

datatype call = IndexSearch string "string list" int | Generate string int

type_synonym search_fn = "index \<Rightarrow> string \<Rightarrow> string list \<Rightarrow> int \<Rightarrow> backend_exception + hit list"

type_synonym generate_fn = "string \<Rightarrow> int \<Rightarrow> backend_exception + string"

definition prompt_of :: "string \<Rightarrow> string \<Rightarrow> string" where
  "prompt_of question context =
     ''You are a helpful podcast assistant. Based on the provided transcript segments, \<newline>''
     @ ''answer the user's question concisely and accurately. ''
     @ ''Keep your answer brief (2-3 sentences max).\<newline>\<newline>Question: '' @ question
     @ ''\<newline>\<newline>Relevant transcript excerpts:\<newline>'' @ context
     @ ''\<newline>\<newline>Answer:''"

definition generate_answer ::
  "generate_fn \<Rightarrow> string \<Rightarrow> string \<Rightarrow> int \<Rightarrow> call list \<times> (backend_exception + string)" where
  "generate_answer generate question context max_tokens =
     ([Generate (prompt_of question context) max_tokens],
      generate (prompt_of question context) max_tokens)"

record answer_result =
  answer :: string
  sources :: "source list"
  context_used :: nat

definition no_information :: string where
  "no_information =
     ''I couldn't find relevant information in the podcast transcripts to answer your question.''"

definition answer_question ::
  "search_fn \<Rightarrow> generate_fn \<Rightarrow> chatbot \<Rightarrow> string \<Rightarrow> int
     \<Rightarrow> call list \<times> (backend_exception + answer_result)" where
  "answer_question search generate self question max_context_segments =
     (case search (index self) question [''episode_title'', ''text''] max_context_segments of
        Inl e \<Rightarrow>
          ([IndexSearch question [''episode_title'', ''text''] max_context_segments], Inl e)
      | Inr search_results \<Rightarrow>
          if search_results = []
          then ([IndexSearch question [''episode_title'', ''text''] max_context_segments],
                Inr \<lparr>answer = no_information, sources = [], context_used = 0\<rparr>)
          else (case assemble (episodes self) [] [] search_results of
                  (context_parts, srcs) \<Rightarrow>
                    (case generate_answer generate question
                            (join ''\<newline>\<newline>'' context_parts) 400 of
                       (calls, Inl e) \<Rightarrow>
                         (IndexSearch question [''episode_title'', ''text'']
                            max_context_segments # calls, Inl e)
                     | (calls, Inr a) \<Rightarrow>
                         (IndexSearch question [''episode_title'', ''text'']
                            max_context_segments # calls,
                          Inr \<lparr>answer = a, sources = srcs,
                               context_used = length search_results\<rparr>))))"

text \<open>The default of the parameter \<open>max_context_segments\<close>, used when the caller omits it.\<close>

definition answer_question_default ::
  "search_fn \<Rightarrow> generate_fn \<Rightarrow> chatbot \<Rightarrow> string
     \<Rightarrow> call list \<times> (backend_exception + answer_result)" where
  "answer_question_default search generate self question =
     answer_question search generate self question 3"

text \<open>
  The URL the loop body finds for a hit: \<open>self.episodes.get(episode_id, {})\<close> followed by
  \<open>episode.get("video_url", "")\<close> or \<open>episode.get("audio_url", "")\<close>.
\<close>

definition url_of :: "(string \<times> episode) list \<Rightarrow> hit \<Rightarrow> (episode \<Rightarrow> string) \<Rightarrow> string" where
  "url_of eps h sel =
     (case dict_get eps (get_or (hit_episode_id h) []) of None \<Rightarrow> [] | Some ep \<Rightarrow> sel ep)"

text \<open>Which recorded calls went to the generator.\<close>

fun is_generate :: "call \<Rightarrow> bool" where
  "is_generate (Generate prompt max_tokens) = True"
| "is_generate (IndexSearch query search_fields max_results) = False"

section \<open>The REST endpoint (\<open>api.py\<close>)\<close>

text \<open>
  \<open>ask_question\<close>: the module's global \<open>chatbot\<close> is \<open>None\<close> until start-up has loaded the
  transcripts. An exception of \<open>answer_question\<close> is turned into a 500 carrying its
  message.
\<close>

datatype http_exception = HTTPException nat string

definition ask_question ::
  "search_fn \<Rightarrow> generate_fn \<Rightarrow> chatbot option \<Rightarrow> string \<Rightarrow> int
     \<Rightarrow> call list \<times> (http_exception + answer_result)" where
  "ask_question search generate chatbot question max_context_segments =
     (case chatbot of
        None \<Rightarrow> ([], Inl (HTTPException 500 ''Chatbot not initialized''))
      | Some cb \<Rightarrow>
          if strip question = []
          then ([], Inl (HTTPException 400 ''Question cannot be empty''))
          else (case answer_question search generate cb question max_context_segments of
                  (calls, Inl (Raised msg)) \<Rightarrow> (calls, Inl (HTTPException 500 msg))
                | (calls, Inr result) \<Rightarrow> (calls, Inr result)))"

section \<open>Example states\<close>

text \<open>A chatbot with two episodes, for running the operations on concrete inputs.\<close>

definition example_chatbot :: chatbot where
  "example_chatbot =
     add_transcript
       (add_transcript new_chatbot ''ep1'' ''Pets'' 1 ''we talk about cats''
          ''https://youtu.be/p1'' [])
       ''ep2'' ''Travel'' 2 ''we talk about trains'' [] ''https://example.com/e2.mp3''"


section \<open>The clock parser and the timestamp links\<close>

lemma str_split_not_Nil: "str_split sep s \<noteq> []"
  by (induction s) (auto split: list.splits)

lemma str_split_no_sep: "sep \<notin> set s \<Longrightarrow> str_split sep s = [s]"
  by (induction s) auto

lemma str_split_append: "sep \<notin> set a \<Longrightarrow> str_split sep (a @ sep # b) = a # str_split sep b"
  by (induction a) auto

lemma str_split_covers:
  "c \<in> set s \<Longrightarrow> c \<noteq> sep \<Longrightarrow> \<exists>g \<in> set (str_split sep s). c \<in> set g"
proof (induction s)
  case Nil
  then show ?case by simp
next
  case (Cons x xs)
  obtain p ps where sp: "str_split sep xs = p # ps"
    using str_split_not_Nil [of sep xs] by (cases "str_split sep xs") auto
  show ?case
  proof (cases "x = sep")
    case True
    with Cons show ?thesis by auto
  next
    case False
    show ?thesis
    proof (cases "c = x")
      case True
      with False sp show ?thesis by simp
    next
      case False
      with Cons have "\<exists>g \<in> set (p # ps). c \<in> set g" using sp by auto
      with \<open>x \<noteq> sep\<close> sp show ?thesis by auto
    qed
  qed
qed

lemma is_digit_not_space: "is_digit c \<Longrightarrow> \<not> is_int_space c"
  by (auto simp: is_digit_def is_int_space_def)

lemma is_digit_not_sign: "is_digit c \<Longrightarrow> c \<noteq> CHR ''-'' \<and> c \<noteq> CHR ''+'' \<and> c \<noteq> CHR ''_'' \<and> c \<noteq> CHR '':''"
  by (auto simp: is_digit_def)

lemma int_strip_id:
  "s \<noteq> [] \<Longrightarrow> \<not> is_int_space (hd s) \<Longrightarrow> \<not> is_int_space (last s) \<Longrightarrow> int_strip s = s"
proof -
  assume a: "s \<noteq> []" "\<not> is_int_space (hd s)" "\<not> is_int_space (last s)"
  then have "dropWhile is_int_space s = s" by (cases s) auto
  moreover from a have "dropWhile is_int_space (rev s) = rev s"
    by (cases "rev s") (auto simp: last_rev hd_rev dest: arg_cong [where f=hd])
  ultimately show ?thesis by (simp add: int_strip_def)
qed

lemma py_int_decimal:
  assumes "is_decimal ds"
  shows "py_int ds = Inr (int (digits_value ds))"
proof -
  from assms have ne: "ds \<noteq> []" and dig: "\<forall>c \<in> set ds. is_digit c"
    by (auto simp: is_decimal_def list_all_iff)
  from ne dig have "is_digit (hd ds)" "is_digit (last ds)" by auto
  then have st: "int_strip ds = ds" and h: "hd ds \<noteq> CHR ''-''" "hd ds \<noteq> CHR ''+''"
    using ne int_strip_id is_digit_not_space is_digit_not_sign by auto
  from dig have nu: "CHR ''_'' \<notin> set ds" using is_digit_not_sign by blast
  then have sp: "str_split (CHR ''_'') ds = [ds]" by (rule str_split_no_sep)
  from nu have fl: "filter (\<lambda>c. c \<noteq> CHR ''_'') ds = ds" by (induction ds) auto
  from ne dig sp have "valid_digits ds" by (simp add: valid_digits_def list_all_iff)
  with st h ne fl show ?thesis by (simp add: py_int_def Let_def)
qed

lemma digit_val_digit_char: "d < 10 \<Longrightarrow> digit_val (digit_char d) = d"
proof -
  assume "d < 10"
  then have "d \<in> {0,1,2,3,4,5,6,7,8,9}" by auto
  then show ?thesis by (auto simp: digit_val_def digit_char_def)
qed

lemma is_digit_digit_char: "d < 10 \<Longrightarrow> is_digit (digit_char d)"
proof -
  assume "d < 10"
  then have "d \<in> {0,1,2,3,4,5,6,7,8,9}" by auto
  then show ?thesis by (auto simp: is_digit_def digit_char_def)
qed

lemma digits_value_snoc: "digits_value (ds @ [c]) = 10 * digits_value ds + digit_val c"
  by (simp add: digits_value_def)

declare str_nat.simps [simp del]

lemma digits_value_str_nat: "digits_value (str_nat n) = n"
proof (induction n rule: str_nat.induct)
  case (1 n)
  show ?case
  proof (cases "n < 10")
    case True
    then show ?thesis
      by (subst str_nat.simps) (simp add: digits_value_def digit_val_digit_char)
  next
    case False
    with 1 show ?thesis
      by (subst str_nat.simps) (simp add: digits_value_snoc digit_val_digit_char)
  qed
qed

lemma is_decimal_str_nat: "is_decimal (str_nat n)"
proof (induction n rule: str_nat.induct)
  case (1 n)
  show ?case
  proof (cases "n < 10")
    case True
    then show ?thesis
      by (subst str_nat.simps) (simp add: is_decimal_def is_digit_digit_char)
  next
    case False
    with 1 show ?thesis
      by (subst str_nat.simps) (simp add: is_decimal_def is_digit_digit_char)
  qed
qed

lemma is_decimal_no_colon: "is_decimal ds \<Longrightarrow> CHR '':'' \<notin> set ds"
  using is_digit_not_sign by (auto simp: is_decimal_def list_all_iff)

lemma split_two: "is_decimal m \<Longrightarrow> is_decimal s \<Longrightarrow> str_split (CHR '':'') (m @ '':'' @ s) = [m, s]"
  by (simp add: str_split_append str_split_no_sep is_decimal_no_colon)

lemma split_three: "is_decimal h \<Longrightarrow> is_decimal m \<Longrightarrow> is_decimal s \<Longrightarrow>
   str_split (CHR '':'') (h @ '':'' @ m @ '':'' @ s) = [h, m, s]"
  by (simp add: str_split_append str_split_no_sep is_decimal_no_colon)

lemma time_to_seconds_two:
  "is_decimal m \<Longrightarrow> is_decimal s \<Longrightarrow>
   time_to_seconds (m @ '':'' @ s) = Inr (int (digits_value m) * 60 + int (digits_value s))"
  using split_two [of m s] by (simp add: time_to_seconds_def py_int_decimal)

lemma time_to_seconds_three:
  "is_decimal h \<Longrightarrow> is_decimal m \<Longrightarrow> is_decimal s \<Longrightarrow>
   time_to_seconds (h @ '':'' @ m @ '':'' @ s) =
     Inr (int (digits_value h) * 3600 + int (digits_value m) * 60 + int (digits_value s))"
  using split_three [of h m s] by (simp add: time_to_seconds_def py_int_decimal)

lemma time_to_seconds_other:
  "length (str_split (CHR '':'') t) \<noteq> 2 \<Longrightarrow> length (str_split (CHR '':'') t) \<noteq> 3 \<Longrightarrow>
   time_to_seconds t = Inr 0"
  by (auto simp: time_to_seconds_def split: list.splits)

lemma startswith_iff: "startswith s p \<longleftrightarrow> (\<exists>q. s = p @ q)"
  unfolding startswith_def
  by (metis append_eq_conv_conj append_take_drop_id)

lemma str_in_iff: "str_in sub s \<longleftrightarrow> (\<exists>p q. s = p @ sub @ q)"
proof (induction s)
  case Nil
  then show ?case by auto
next
  case (Cons c cs)
  show ?case
  proof
    assume "str_in sub (c # cs)"
    then consider "startswith (c # cs) sub" | "str_in sub cs" by auto
    then show "\<exists>p q. c # cs = p @ sub @ q"
    proof cases
      case 1
      then obtain q where "c # cs = sub @ q" by (auto simp: startswith_iff)
      then have "c # cs = [] @ sub @ q" by simp
      then show ?thesis by blast
    next
      case 2
      with Cons obtain p q where "cs = p @ sub @ q" by auto
      then have "c # cs = (c # p) @ sub @ q" by simp
      then show ?thesis by blast
    qed
  next
    assume "\<exists>p q. c # cs = p @ sub @ q"
    then obtain p q where e: "c # cs = p @ sub @ q" by auto
    show "str_in sub (c # cs)"
    proof (cases p)
      case Nil
      with e have "startswith (c # cs) sub" by (auto simp: startswith_iff)
      then show ?thesis by simp
    next
      case (Cons a p')
      with e have "cs = p' @ sub @ q" by simp
      with Cons.IH have "str_in sub cs" by blast
      then show ?thesis by simp
    qed
  qed
qed

text \<open>
  Claim C5. \<open>_time_to_seconds\<close> returns \<open>minutes * 60 + seconds\<close> for two components
  that are non-negative decimal integers, \<open>hours * 3600 + minutes * 60 + seconds\<close> for
  three, and 0, without raising, whenever the number of colon-separated components is
  neither 2 nor 3 (a string always has at least one component). The same holds for the
  decimal renderings of any natural numbers, and \<open>"05:30"\<close>, \<open>"1:02:03"\<close>, \<open>"bad"\<close> give
  330, 3723 and 0.
\<close>

theorem time_to_seconds_clock:
  "(is_decimal m \<and> is_decimal s \<longrightarrow>
      time_to_seconds (m @ '':'' @ s) = Inr (int (digits_value m) * 60 + int (digits_value s)))
   \<and> (is_decimal h \<and> is_decimal m' \<and> is_decimal s' \<longrightarrow>
      time_to_seconds (h @ '':'' @ m' @ '':'' @ s') =
        Inr (int (digits_value h) * 3600 + int (digits_value m') * 60 + int (digits_value s')))
   \<and> (length (str_split (CHR '':'') t) \<notin> {2, 3} \<longrightarrow> time_to_seconds t = Inr 0)
   \<and> time_to_seconds (str_nat a @ '':'' @ str_nat b) = Inr (int a * 60 + int b)
   \<and> time_to_seconds (str_nat c @ '':'' @ str_nat a @ '':'' @ str_nat b) =
        Inr (int c * 3600 + int a * 60 + int b)
   \<and> time_to_seconds ''05:30'' = Inr 330
   \<and> time_to_seconds ''1:02:03'' = Inr 3723
   \<and> time_to_seconds ''bad'' = Inr 0"
proof -
  have two: "is_decimal m \<and> is_decimal s \<longrightarrow>
      time_to_seconds (m @ '':'' @ s) = Inr (int (digits_value m) * 60 + int (digits_value s))"
    using time_to_seconds_two by blast
  have three: "is_decimal h \<and> is_decimal m' \<and> is_decimal s' \<longrightarrow>
      time_to_seconds (h @ '':'' @ m' @ '':'' @ s') =
        Inr (int (digits_value h) * 3600 + int (digits_value m') * 60 + int (digits_value s'))"
    using time_to_seconds_three by blast
  have other: "length (str_split (CHR '':'') t) \<notin> {2, 3} \<longrightarrow> time_to_seconds t = Inr 0"
    using time_to_seconds_other by simp
  have n2: "time_to_seconds (str_nat a @ '':'' @ str_nat b) = Inr (int a * 60 + int b)"
    using time_to_seconds_two [OF is_decimal_str_nat is_decimal_str_nat, of a b]
    by (simp add: digits_value_str_nat)
  have n3: "time_to_seconds (str_nat c @ '':'' @ str_nat a @ '':'' @ str_nat b) =
        Inr (int c * 3600 + int a * 60 + int b)"
    using time_to_seconds_three [OF is_decimal_str_nat is_decimal_str_nat is_decimal_str_nat, of c a b]
    by (simp add: digits_value_str_nat)
  have e1: "time_to_seconds ''05:30'' = Inr 330" by code_simp
  have e2: "time_to_seconds ''1:02:03'' = Inr 3723" by code_simp
  have e3: "time_to_seconds ''bad'' = Inr 0" by code_simp
  from two three other n2 n3 e1 e2 e3 show ?thesis by blast
qed

theorem time_to_seconds_clock_witness:
  "is_decimal ''07'' \<and> is_decimal ''45''
   \<and> time_to_seconds ''07:45'' = Inr 465
   \<and> is_decimal ''2'' \<and> is_decimal ''00'' \<and> is_decimal ''09''
   \<and> time_to_seconds ''2:00:09'' = Inr 7209
   \<and> length (str_split (CHR '':'') ''1:2:3:4'') \<notin> {2, 3}
   \<and> time_to_seconds ''1:2:3:4'' = Inr 0"
proof -
  have d: "is_decimal ''07''" "is_decimal ''45''" "is_decimal ''2''" "is_decimal ''00''"
    "is_decimal ''09''"
    by (simp_all add: is_decimal_def is_digit_def)
  have v: "digits_value ''07'' = 7" "digits_value ''45'' = 45" "digits_value ''2'' = 2"
    "digits_value ''00'' = 0" "digits_value ''09'' = 9"
    by (simp_all add: digits_value_def digit_val_def)
  have l: "length (str_split (CHR '':'') ''1:2:3:4'') \<notin> {2, 3}" by simp
  show ?thesis
    using time_to_seconds_clock [of "''07''" "''45''" "''2''" "''00''" "''09''" "''1:2:3:4''"] d v l
    by simp
qed

lemma py_int_error: "py_int s = Inl e \<Longrightarrow> e = ValueError"
  by (simp add: py_int_def Let_def split: if_splits)

lemma raises_two:
  assumes s: "str_split (CHR '':'') t = [p1, p2]"
    and r: "py_int p1 = Inl ValueError \<or> py_int p2 = Inl ValueError"
  shows "time_to_seconds t = Inl ValueError"
proof (cases "py_int p1")
  case (Inl e)
  with py_int_error have "py_int p1 = Inl ValueError" by blast
  with s show ?thesis by (simp add: time_to_seconds_def)
next
  case (Inr i)
  with r have "py_int p2 = Inl ValueError" by simp
  with Inr s show ?thesis by (simp add: time_to_seconds_def)
qed

lemma raises_three:
  assumes s: "str_split (CHR '':'') t = [p1, p2, p3]"
    and r: "py_int p1 = Inl ValueError \<or> py_int p2 = Inl ValueError \<or> py_int p3 = Inl ValueError"
  shows "time_to_seconds t = Inl ValueError"
proof (cases "py_int p1")
  case (Inl e)
  with py_int_error have "py_int p1 = Inl ValueError" by blast
  with s show ?thesis by (simp add: time_to_seconds_def)
next
  case i1: (Inr i)
  show ?thesis
  proof (cases "py_int p2")
    case (Inl e)
    with py_int_error have "py_int p2 = Inl ValueError" by blast
    with i1 s show ?thesis by (simp add: time_to_seconds_def)
  next
    case i2: (Inr j)
    with i1 r have "py_int p3 = Inl ValueError" by simp
    with i1 i2 s show ?thesis by (simp add: time_to_seconds_def)
  qed
qed

lemma set_dropWhile_keeps: "c \<in> set xs \<Longrightarrow> \<not> P c \<Longrightarrow> c \<in> set (dropWhile P xs)"
  by (induction xs) auto

lemma int_strip_keeps: "c \<in> set s \<Longrightarrow> \<not> is_int_space c \<Longrightarrow> c \<in> set (int_strip s)"
  by (simp add: int_strip_def set_dropWhile_keeps)

lemma py_int_foreign_char:
  assumes c: "c \<in> set p" and nd: "\<not> is_digit c" and ns: "\<not> is_int_space c"
    and nsg: "c \<noteq> CHR ''+''" "c \<noteq> CHR ''-''" "c \<noteq> CHR ''_''"
  shows "py_int p = Inl ValueError"
proof -
  define t where "t = int_strip p"
  define body where "body = (if t \<noteq> [] \<and> (hd t = CHR ''-'' \<or> hd t = CHR ''+'') then tl t else t)"
  from c ns have ct: "c \<in> set t" by (simp add: t_def int_strip_keeps)
  have "c \<in> set body"
  proof (cases "t \<noteq> [] \<and> (hd t = CHR ''-'' \<or> hd t = CHR ''+'')")
    case True
    with ct nsg have "c \<in> set (tl t)" by (cases t) auto
    with True show ?thesis by (simp add: body_def)
  next
    case False
    then have "body = t" unfolding body_def by (rule if_not_P)
    with ct show ?thesis by simp
  qed
  with nsg obtain g where "g \<in> set (str_split (CHR ''_'') body)" "c \<in> set g"
    using str_split_covers by blast
  with nd have "\<not> valid_digits body"
    by (auto simp: valid_digits_def list_all_iff)
  then show ?thesis
    unfolding py_int_def Let_def body_def t_def by (simp only: if_False)
qed

lemma py_int_empty: "py_int [] = Inl ValueError"
  by (simp add: py_int_def int_strip_def valid_digits_def)

lemma py_int_not_a_number: "not_a_number p \<Longrightarrow> py_int p = Inl ValueError"
proof -
  assume "not_a_number p"
  then consider "p = []"
    | c where "c \<in> set p" "\<not> is_digit c" "c \<noteq> CHR ''+''" "c \<noteq> CHR ''-''"
        "c \<noteq> CHR ''_''" "\<not> is_int_space c"
    by (auto simp: not_a_number_def list_ex_iff)
  then show ?thesis
  proof cases
    case 1
    then show ?thesis by (simp add: py_int_empty)
  next
    case 2
    then show ?thesis by (intro py_int_foreign_char [of c])
  qed
qed

lemma time_to_seconds_error: "time_to_seconds t = Inl e \<Longrightarrow> e = ValueError"
  by (auto simp: time_to_seconds_def split: list.splits sum.splits dest: py_int_error)

text \<open>
  Claim C10, as stated, fails when "not a decimal integer" is read of the text of the
  component: \<open>1_0\<close>, \<open> 5\<close> (with a leading space), \<open>+5\<close> and \<open>-1\<close> are not runs of
  decimal digits, yet \<open>int\<close> accepts them and \<open>_time_to_seconds\<close> returns seconds.
\<close>

theorem time_to_seconds_lenient_counterexample:
  "str_split (CHR '':'') ''1_0:30'' = [''1_0'', ''30''] \<and> \<not> is_decimal ''1_0''
     \<and> time_to_seconds ''1_0:30'' = Inr 630
   \<and> str_split (CHR '':'') '' 5:30'' = ['' 5'', ''30''] \<and> \<not> is_decimal '' 5''
     \<and> time_to_seconds '' 5:30'' = Inr 330
   \<and> str_split (CHR '':'') ''+5:30'' = [''+5'', ''30''] \<and> \<not> is_decimal ''+5''
     \<and> time_to_seconds ''+5:30'' = Inr 330
   \<and> str_split (CHR '':'') ''-1:30'' = [''-1'', ''30''] \<and> \<not> is_decimal ''-1''
     \<and> time_to_seconds ''-1:30'' = Inr (- 30)"
proof -
  have s: "str_split (CHR '':'') ''1_0:30'' = [''1_0'', ''30'']"
    "str_split (CHR '':'') '' 5:30'' = ['' 5'', ''30'']"
    "str_split (CHR '':'') ''+5:30'' = [''+5'', ''30'']"
    "str_split (CHR '':'') ''-1:30'' = [''-1'', ''30'']"
    by simp_all
  have d: "\<not> is_decimal ''1_0''" "\<not> is_decimal '' 5''" "\<not> is_decimal ''+5''"
    "\<not> is_decimal ''-1''"
    by (simp_all add: is_decimal_def is_digit_def)
  have t1: "time_to_seconds ''1_0:30'' = Inr 630" by code_simp
  have t2: "time_to_seconds '' 5:30'' = Inr 330" by code_simp
  have t3: "time_to_seconds ''+5:30'' = Inr 330" by code_simp
  have t4: "time_to_seconds ''-1:30'' = Inr (- 30)" by code_simp
  from s d t1 t2 t3 t4 show ?thesis by blast
qed

text \<open>
  Claim C10, amended. The fallback to 0 covers the number of components only. With
  exactly two or three components, \<open>_time_to_seconds\<close> raises \<open>ValueError\<close> whenever
  \<open>int\<close> rejects one of them; that is so, in particular, for every component that is
  empty or holds a character other than a decimal digit, a sign, an underscore or
  whitespace that \<open>int\<close> strips, such as the letters of \<open>"aa:bb"\<close> and the separator
  0x1C. \<open>_build_timestamp_link\<close> with a non-empty URL raises with it. \<open>ValueError\<close> is
  the only exception \<open>_time_to_seconds\<close> raises.
\<close>

theorem time_to_seconds_raises:
  "(str_split (CHR '':'') t = [p1, p2] \<and> (not_a_number p1 \<or> not_a_number p2)
      \<longrightarrow> time_to_seconds t = Inl ValueError
          \<and> (url \<noteq> [] \<longrightarrow> build_timestamp_link url t = Inl ValueError))
   \<and> (str_split (CHR '':'') t' = [q1, q2, q3]
        \<and> (not_a_number q1 \<or> not_a_number q2 \<or> not_a_number q3)
      \<longrightarrow> time_to_seconds t' = Inl ValueError
          \<and> (url' \<noteq> [] \<longrightarrow> build_timestamp_link url' t' = Inl ValueError))
   \<and> (str_split (CHR '':'') u = [r1, r2] \<and> (py_int r1 = Inl ValueError \<or> py_int r2 = Inl ValueError)
      \<longrightarrow> time_to_seconds u = Inl ValueError)
   \<and> (str_split (CHR '':'') u' = [s1, s2, s3]
        \<and> (py_int s1 = Inl ValueError \<or> py_int s2 = Inl ValueError \<or> py_int s3 = Inl ValueError)
      \<longrightarrow> time_to_seconds u' = Inl ValueError)
   \<and> (time_to_seconds w = Inl e \<longrightarrow> e = ValueError)
   \<and> time_to_seconds ''aa:bb'' = Inl ValueError
   \<and> time_to_seconds ([CHR 0x1C] @ ''5:30'') = Inl ValueError
   \<and> build_timestamp_link ''https://example.com/ep1.mp3'' ''aa:bb'' = Inl ValueError"
proof -
  have l: "time_to_seconds x = Inl ValueError \<Longrightarrow> y \<noteq> [] \<Longrightarrow>
      build_timestamp_link y x = Inl ValueError" for x y
    by (simp add: build_timestamp_link_def)
  have a: "str_split (CHR '':'') t = [p1, p2] \<and> (not_a_number p1 \<or> not_a_number p2)
      \<longrightarrow> time_to_seconds t = Inl ValueError
          \<and> (url \<noteq> [] \<longrightarrow> build_timestamp_link url t = Inl ValueError)"
    using raises_two [of t p1 p2] py_int_not_a_number l by blast
  have b: "str_split (CHR '':'') t' = [q1, q2, q3]
        \<and> (not_a_number q1 \<or> not_a_number q2 \<or> not_a_number q3)
      \<longrightarrow> time_to_seconds t' = Inl ValueError
          \<and> (url' \<noteq> [] \<longrightarrow> build_timestamp_link url' t' = Inl ValueError)"
    using raises_three [of t' q1 q2 q3] py_int_not_a_number l by blast
  have c: "str_split (CHR '':'') u = [r1, r2] \<and> (py_int r1 = Inl ValueError \<or> py_int r2 = Inl ValueError)
      \<longrightarrow> time_to_seconds u = Inl ValueError"
    using raises_two by blast
  have d: "str_split (CHR '':'') u' = [s1, s2, s3]
        \<and> (py_int s1 = Inl ValueError \<or> py_int s2 = Inl ValueError \<or> py_int s3 = Inl ValueError)
      \<longrightarrow> time_to_seconds u' = Inl ValueError"
    using raises_three by blast
  have e: "time_to_seconds w = Inl e \<longrightarrow> e = ValueError"
    using time_to_seconds_error by blast
  have x1: "time_to_seconds ''aa:bb'' = Inl ValueError" by code_simp
  have x2: "time_to_seconds ([CHR 0x1C] @ ''5:30'') = Inl ValueError" by code_simp
  have x3: "build_timestamp_link ''https://example.com/ep1.mp3'' ''aa:bb'' = Inl ValueError"
    by code_simp
  from a b c d e x1 x2 x3 show ?thesis by blast
qed

theorem time_to_seconds_raises_witness:
  "str_split (CHR '':'') ''12:3x'' = [''12'', ''3x''] \<and> not_a_number ''3x''
   \<and> time_to_seconds ''12:3x'' = Inl ValueError
   \<and> ''https://youtu.be/abc'' \<noteq> []
   \<and> build_timestamp_link ''https://youtu.be/abc'' ''12:3x'' = Inl ValueError
   \<and> str_split (CHR '':'') '':00:10'' = [[], ''00'', ''10''] \<and> not_a_number []
   \<and> time_to_seconds '':00:10'' = Inl ValueError
   \<and> str_split (CHR '':'') ''4:5-'' = [''4'', ''5-''] \<and> py_int ''5-'' = Inl ValueError
   \<and> time_to_seconds ''4:5-'' = Inl ValueError"
proof -
  have s2: "str_split (CHR '':'') ''12:3x'' = [''12'', ''3x'']" by simp
  have n2: "not_a_number ''3x''"
    by (simp add: not_a_number_def is_digit_def is_int_space_def)
  have s3: "str_split (CHR '':'') '':00:10'' = [[], ''00'', ''10'']" by simp
  have n3: "not_a_number []" by (simp add: not_a_number_def)
  have s4: "str_split (CHR '':'') ''4:5-'' = [''4'', ''5-'']" by simp
  have r4: "py_int ''5-'' = Inl ValueError" by code_simp
  have u: "''https://youtu.be/abc'' \<noteq> []" by simp
  note inst = time_to_seconds_raises [where t = "''12:3x''" and ?p1.0 = "''12''"
      and ?p2.0 = "''3x''" and url = "''https://youtu.be/abc''"
      and t' = "'':00:10''" and ?q1.0 = "[]" and ?q2.0 = "''00''" and ?q3.0 = "''10''"
      and u = "''4:5-''" and ?r1.0 = "''4''" and ?r2.0 = "''5-''"]
  from inst s2 n2 have e2: "time_to_seconds ''12:3x'' = Inl ValueError" by blast
  from inst s2 n2 u have e2': "build_timestamp_link ''https://youtu.be/abc'' ''12:3x'' = Inl ValueError"
    by blast
  from inst s3 n3 have e3: "time_to_seconds '':00:10'' = Inl ValueError" by blast
  from inst s4 r4 have e4: "time_to_seconds ''4:5-'' = Inl ValueError" by blast
  from s2 n2 e2 u e2' s3 n3 e3 s4 r4 e4 show ?thesis by blast
qed

text \<open>
  Claim C6, as stated, fails: it holds for every clock string only when the URL is
  empty. With a non-empty URL and a clock string such as \<open>"aa:bb"\<close>,
  \<open>_build_timestamp_link\<close> raises \<open>ValueError\<close> and appends nothing, for a YouTube URL
  and for any other.
\<close>

theorem build_timestamp_link_counterexample:
  "build_timestamp_link ''https://youtube.com/watch?v=X'' ''aa:bb'' = Inl ValueError
   \<and> build_timestamp_link ''https://open.spotify.com/episode/1'' ''aa:bb'' = Inl ValueError"
proof -
  have a: "build_timestamp_link ''https://youtube.com/watch?v=X'' ''aa:bb'' = Inl ValueError"
    by code_simp
  have b: "build_timestamp_link ''https://open.spotify.com/episode/1'' ''aa:bb'' = Inl ValueError"
    by code_simp
  from a b show ?thesis by blast
qed

text \<open>
  Claim C6, amended. \<open>_build_timestamp_link\<close> returns \<open>""\<close> for an empty URL, whatever
  the clock string. For a non-empty URL it first computes the seconds with
  \<open>_time_to_seconds\<close>. When that raises, \<open>_build_timestamp_link\<close> raises the same
  exception and returns no link. When it returns the seconds, a URL containing
  \<open>youtube.com\<close> or \<open>youtu.be\<close> gets \<open>&t=<seconds>\<close> when it contains \<open>?\<close> and
  \<open>?t=<seconds>\<close> otherwise; any other URL, one containing \<open>spotify.com\<close> included,
  gets \<open>#t=<seconds>\<close>. The two examples of the specification hold.
\<close>

theorem build_timestamp_link_dispatch:
  "build_timestamp_link [] t = Inr []
   \<and> (url \<noteq> [] \<and> time_to_seconds t = Inl e \<longrightarrow> build_timestamp_link url t = Inl e)
   \<and> (url \<noteq> [] \<and> time_to_seconds t = Inr secs
        \<and> (str_in ''youtube.com'' url \<or> str_in ''youtu.be'' url) \<and> str_in ''?'' url
      \<longrightarrow> build_timestamp_link url t = Inr (url @ ''&t='' @ str_int secs))
   \<and> (url \<noteq> [] \<and> time_to_seconds t = Inr secs
        \<and> (str_in ''youtube.com'' url \<or> str_in ''youtu.be'' url) \<and> \<not> str_in ''?'' url
      \<longrightarrow> build_timestamp_link url t = Inr (url @ ''?t='' @ str_int secs))
   \<and> (url \<noteq> [] \<and> time_to_seconds t = Inr secs
        \<and> \<not> str_in ''youtube.com'' url \<and> \<not> str_in ''youtu.be'' url \<and> str_in ''spotify.com'' url
      \<longrightarrow> build_timestamp_link url t = Inr (url @ ''#t='' @ str_int secs))
   \<and> (url \<noteq> [] \<and> time_to_seconds t = Inr secs
        \<and> \<not> str_in ''youtube.com'' url \<and> \<not> str_in ''youtu.be'' url
      \<longrightarrow> build_timestamp_link url t = Inr (url @ ''#t='' @ str_int secs))
   \<and> build_timestamp_link ''https://youtube.com/watch?v=X'' ''01:00''
        = Inr ''https://youtube.com/watch?v=X&t=60''
   \<and> build_timestamp_link [] ''01:00'' = Inr []"
proof -
  have e: "build_timestamp_link [] t = Inr []" for t
    by (simp add: build_timestamp_link_def)
  have r: "url \<noteq> [] \<and> time_to_seconds t = Inl e \<longrightarrow> build_timestamp_link url t = Inl e"
    by (simp add: build_timestamp_link_def)
  have a: "url \<noteq> [] \<and> time_to_seconds t = Inr secs
        \<and> (str_in ''youtube.com'' url \<or> str_in ''youtu.be'' url) \<and> str_in ''?'' url
      \<longrightarrow> build_timestamp_link url t = Inr (url @ ''&t='' @ str_int secs)"
    by (simp add: build_timestamp_link_def)
  have b: "url \<noteq> [] \<and> time_to_seconds t = Inr secs
        \<and> (str_in ''youtube.com'' url \<or> str_in ''youtu.be'' url) \<and> \<not> str_in ''?'' url
      \<longrightarrow> build_timestamp_link url t = Inr (url @ ''?t='' @ str_int secs)"
    by (simp add: build_timestamp_link_def)
  have c: "url \<noteq> [] \<and> time_to_seconds t = Inr secs
        \<and> \<not> str_in ''youtube.com'' url \<and> \<not> str_in ''youtu.be'' url
      \<longrightarrow> build_timestamp_link url t = Inr (url @ ''#t='' @ str_int secs)"
    by (simp add: build_timestamp_link_def)
  have x1: "build_timestamp_link ''https://youtube.com/watch?v=X'' ''01:00''
        = Inr ''https://youtube.com/watch?v=X&t=60''"
    by code_simp
  from e [of t] e [of "''01:00''"] r a b c x1 show ?thesis by blast
qed

theorem build_timestamp_link_dispatch_witness:
  "''https://youtu.be/abc'' \<noteq> [] \<and> time_to_seconds ''02:05'' = Inr 125
   \<and> str_in ''youtu.be'' ''https://youtu.be/abc'' \<and> \<not> str_in ''?'' ''https://youtu.be/abc''
   \<and> build_timestamp_link ''https://youtu.be/abc'' ''02:05'' = Inr ''https://youtu.be/abc?t=125''
   \<and> time_to_seconds ''2m05'' = Inr 0
   \<and> build_timestamp_link ''https://youtu.be/abc'' ''2m05'' = Inr ''https://youtu.be/abc?t=0''
   \<and> time_to_seconds ''02:0x'' = Inl ValueError
   \<and> build_timestamp_link ''https://youtu.be/abc'' ''02:0x'' = Inl ValueError"
proof -
  have u: "''https://youtu.be/abc'' \<noteq> []" by simp
  have s: "time_to_seconds ''02:05'' = Inr 125" by code_simp
  have s0: "time_to_seconds ''2m05'' = Inr 0" by code_simp
  have sx: "time_to_seconds ''02:0x'' = Inl ValueError" by code_simp
  have y: "str_in ''youtu.be'' ''https://youtu.be/abc''" by code_simp
  have q: "\<not> str_in ''?'' ''https://youtu.be/abc''" by code_simp
  have r: "str_int 125 = ''125''" "str_int 0 = ''0''" by code_simp+
  from build_timestamp_link_dispatch [of "''02:05''" "''https://youtu.be/abc''" _ 125] u s y q
  have "build_timestamp_link ''https://youtu.be/abc'' ''02:05''
          = Inr (''https://youtu.be/abc'' @ ''?t='' @ str_int 125)"
    by blast
  with r have l1: "build_timestamp_link ''https://youtu.be/abc'' ''02:05'' = Inr ''https://youtu.be/abc?t=125''"
    by simp
  from build_timestamp_link_dispatch [of "''2m05''" "''https://youtu.be/abc''" _ 0] u s0 y q
  have "build_timestamp_link ''https://youtu.be/abc'' ''2m05''
          = Inr (''https://youtu.be/abc'' @ ''?t='' @ str_int 0)"
    by blast
  with r have l2: "build_timestamp_link ''https://youtu.be/abc'' ''2m05'' = Inr ''https://youtu.be/abc?t=0''"
    by simp
  from build_timestamp_link_dispatch [of "''02:0x''" "''https://youtu.be/abc''" ValueError] u sx
  have l3: "build_timestamp_link ''https://youtu.be/abc'' ''02:0x'' = Inl ValueError"
    by blast
  from u s y q l1 s0 l2 sx l3 show ?thesis by blast
qed

section \<open>The registry and the listing\<close>

lemma map_of_dict_set: "map_of (dict_set k v d) = (map_of d)(k \<mapsto> v)"
  by (induction d) (auto simp: fun_eq_iff)

lemma dict_get_dict_set: "dict_get (dict_set k v d) k' = (if k' = k then Some v else dict_get d k')"
  by (simp add: dict_get_def map_of_dict_set)

lemma keys_dict_set:
  "map fst (dict_set k v d) = (if k \<in> set (map fst d) then map fst d else map fst d @ [k])"
  by (induction d) force+


lemma info_number_of: "map info_number (map episode_info_of xs) = map (\<lambda>x. number (snd x)) xs"
  by (simp add: episode_info_of_def)

lemma list_episodes_sorted: "sorted (map info_number (list_episodes self))"
  unfolding list_episodes_def info_number_of by (rule sorted_sort_key)

lemma list_episodes_mset: "mset (list_episodes self) = mset (map episode_info_of (episodes self))"
  by (simp add: list_episodes_def)

lemma filter_info_number:
  "filter (\<lambda>i. info_number i = n) (map episode_info_of xs)
     = map episode_info_of (filter (\<lambda>x. number (snd x) = n) xs)"
  by (induction xs) (auto simp: episode_info_of_def)

lemma list_episodes_stable:
  "filter (\<lambda>i. info_number i = n) (list_episodes self)
     = filter (\<lambda>i. info_number i = n) (map episode_info_of (episodes self))"
  unfolding list_episodes_def filter_info_number by (simp add: sort_key_stable)

text \<open>
  Claim C7. \<open>list_episodes\<close> returns the registry's episodes, each once, in ascending
  order of \<open>number\<close>; episodes with the same number keep the order in which the
  registry holds them, which is the order in which their ids were first added (adding
  an id again leaves its place, adding a new id puts it last). On the
  chatbot without episodes it returns the empty list, and episodes added with the numbers
  3, 1, 2 are listed as 1, 2, 3.
\<close>

theorem list_episodes_ordered:
  "sorted (map info_number (list_episodes self))
   \<and> mset (list_episodes self) = mset (map episode_info_of (episodes self))
   \<and> filter (\<lambda>i. info_number i = n) (list_episodes self)
        = filter (\<lambda>i. info_number i = n) (map episode_info_of (episodes self))
   \<and> map fst (episodes (add_transcript self i t m x v a))
        = (if i \<in> set (map fst (episodes self)) then map fst (episodes self)
           else map fst (episodes self) @ [i])
   \<and> list_episodes new_chatbot = []
   \<and> list_episodes
        (add_transcript
          (add_transcript
            (add_transcript new_chatbot ''ep-c'' ''Third'' 3 ''gamma'' [] [])
            ''ep-a'' ''First'' 1 ''alpha'' [] [])
          ''ep-b'' ''Second'' 2 ''beta'' [] [])
      = [\<lparr>info_episode_id = ''ep-a'', info_title = ''First'', info_number = 1\<rparr>,
         \<lparr>info_episode_id = ''ep-b'', info_title = ''Second'', info_number = 2\<rparr>,
         \<lparr>info_episode_id = ''ep-c'', info_title = ''Third'', info_number = 3\<rparr>]
   \<and> list_episodes
        (add_transcript
          (add_transcript new_chatbot ''ep-x'' ''Earlier'' 7 ''one'' [] [])
          ''ep-y'' ''Later'' 7 ''two'' [] [])
      = [\<lparr>info_episode_id = ''ep-x'', info_title = ''Earlier'', info_number = 7\<rparr>,
         \<lparr>info_episode_id = ''ep-y'', info_title = ''Later'', info_number = 7\<rparr>]"
proof -
  have e: "list_episodes new_chatbot = []"
    by (simp add: list_episodes_def new_chatbot_def)
  have x: "list_episodes
        (add_transcript
          (add_transcript
            (add_transcript new_chatbot ''ep-c'' ''Third'' 3 ''gamma'' [] [])
            ''ep-a'' ''First'' 1 ''alpha'' [] [])
          ''ep-b'' ''Second'' 2 ''beta'' [] [])
      = [\<lparr>info_episode_id = ''ep-a'', info_title = ''First'', info_number = 1\<rparr>,
         \<lparr>info_episode_id = ''ep-b'', info_title = ''Second'', info_number = 2\<rparr>,
         \<lparr>info_episode_id = ''ep-c'', info_title = ''Third'', info_number = 3\<rparr>]"
    by (simp add: list_episodes_def new_chatbot_def add_transcript_def episode_info_of_def)
  have y: "list_episodes
        (add_transcript
          (add_transcript new_chatbot ''ep-x'' ''Earlier'' 7 ''one'' [] [])
          ''ep-y'' ''Later'' 7 ''two'' [] [])
      = [\<lparr>info_episode_id = ''ep-x'', info_title = ''Earlier'', info_number = 7\<rparr>,
         \<lparr>info_episode_id = ''ep-y'', info_title = ''Later'', info_number = 7\<rparr>]"
    by (simp add: list_episodes_def new_chatbot_def add_transcript_def episode_info_of_def)
  have k: "map fst (episodes (add_transcript self i t m x v a))
        = (if i \<in> set (map fst (episodes self)) then map fst (episodes self)
           else map fst (episodes self) @ [i])"
    by (simp add: add_transcript_def keys_dict_set)
  from list_episodes_sorted list_episodes_mset list_episodes_stable k e x y show ?thesis
    by blast
qed

section \<open>Sources and answers\<close>

lemma build_source_explicit:
  "build_source eps h =
     [(''episode'', PStr (get_or (hit_episode_title h) ''Unknown'')),
      (''episode_number'', (case hit_episode_number h of None \<Rightarrow> PStr [] | Some n \<Rightarrow> PInt n)),
      (''segment'', PStr (if length (get_or (hit_text h) []) > 200
                          then take 200 (get_or (hit_text h) []) @ ''...''
                          else get_or (hit_text h) [])),
      (''timestamp'', PStr [])]
     @ (if url_of eps h video_url \<noteq> [] then [(''video_link'', PStr (url_of eps h video_url))] else [])
     @ (if url_of eps h audio_url \<noteq> [] then [(''audio_link'', PStr (url_of eps h audio_url))] else [])"
  by (simp add: build_source_def Let_def url_of_def)

lemma url_of_nonempty_iff:
  "url_of eps h sel \<noteq> [] \<longleftrightarrow>
     (\<exists>ep. dict_get eps (get_or (hit_episode_id h) []) = Some ep \<and> sel ep \<noteq> [])"
  by (simp add: url_of_def split: option.splits)

lemma build_source_segment:
  "dict_get (build_source eps h) ''segment'' =
     Some (PStr (if length (get_or (hit_text h) []) > 200
                 then take 200 (get_or (hit_text h) []) @ ''...''
                 else get_or (hit_text h) []))"
  by (simp add: build_source_explicit dict_get_def)

lemma build_source_keys:
  "map fst (build_source eps h) =
     [''episode'', ''episode_number'', ''segment'', ''timestamp'']
     @ (if url_of eps h video_url \<noteq> [] then [''video_link''] else [])
     @ (if url_of eps h audio_url \<noteq> [] then [''audio_link''] else [])"
  by (simp add: build_source_explicit)

lemma build_source_video:
  "dict_get (build_source eps h) ''video_link'' =
     (if url_of eps h video_url \<noteq> [] then Some (PStr (url_of eps h video_url)) else None)"
  by (simp add: build_source_explicit dict_get_def)

lemma build_source_audio:
  "dict_get (build_source eps h) ''audio_link'' =
     (if url_of eps h audio_url \<noteq> [] then Some (PStr (url_of eps h audio_url)) else None)"
  by (simp add: build_source_explicit dict_get_def)

lemma assemble_map:
  "assemble eps context_parts srcs hits
     = (context_parts @ map context_part hits, srcs @ map (build_source eps) hits)"
  by (induction hits arbitrary: context_parts srcs) auto

lemma answer_question_hits:
  assumes "search (index self) question [''episode_title'', ''text''] k = Inr hits"
    and "hits \<noteq> []"
  shows "answer_question search generate self question k =
     (case generate (prompt_of question (join ''\<newline>\<newline>'' (map context_part hits))) 400 of
        Inl e \<Rightarrow>
          ([IndexSearch question [''episode_title'', ''text''] k,
            Generate (prompt_of question (join ''\<newline>\<newline>'' (map context_part hits))) 400], Inl e)
      | Inr a \<Rightarrow>
          ([IndexSearch question [''episode_title'', ''text''] k,
            Generate (prompt_of question (join ''\<newline>\<newline>'' (map context_part hits))) 400],
           Inr \<lparr>answer = a, sources = map (build_source (episodes self)) hits,
                context_used = length hits\<rparr>))"
  using assms
  by (simp add: answer_question_def assemble_map generate_answer_def split: sum.splits)

lemma example_episodes:
  "episodes example_chatbot =
     [(''ep1'', \<lparr>title = ''Pets'', number = 1, video_url = ''https://youtu.be/p1'',
                audio_url = [], transcript = ''we talk about cats''\<rparr>),
      (''ep2'', \<lparr>title = ''Travel'', number = 2, video_url = [],
                audio_url = ''https://example.com/e2.mp3'',
                transcript = ''we talk about trains''\<rparr>)]"
  by (simp add: example_chatbot_def add_transcript_def new_chatbot_def)

text \<open>
  Claim C1. When the index returns a non-empty list of hits, every result
  \<open>answer_question\<close> returns has one source per hit, built from that hit, in the order
  of the hits, and \<open>context_used\<close> is the length of \<open>sources\<close>. It returns such a result
  exactly when the generator returns an answer; an exception of the generator is passed
  on.
\<close>

theorem answer_question_sources:
  "search (index self) question [''episode_title'', ''text''] k = Inr hits \<and> hits \<noteq> [] \<longrightarrow>
     (snd (answer_question search generate self question k) = Inr r \<longrightarrow>
        sources r = map (build_source (episodes self)) hits
        \<and> length (sources r) = length hits
        \<and> context_used r = length (sources r)
        \<and> (\<forall>i < length hits. sources r ! i = build_source (episodes self) (hits ! i)))
     \<and> (generate (prompt_of question (join ''\<newline>\<newline>'' (map context_part hits))) 400 = Inr a \<longrightarrow>
          snd (answer_question search generate self question k)
            = Inr \<lparr>answer = a, sources = map (build_source (episodes self)) hits,
                   context_used = length hits\<rparr>)
     \<and> (generate (prompt_of question (join ''\<newline>\<newline>'' (map context_part hits))) 400 = Inl e \<longrightarrow>
          snd (answer_question search generate self question k) = Inl e)"
proof (intro impI, elim conjE)
  assume s: "search (index self) question [''episode_title'', ''text''] k = Inr hits"
    and h: "hits \<noteq> []"
  have eq: "answer_question search generate self question k =
     (case generate (prompt_of question (join ''\<newline>\<newline>'' (map context_part hits))) 400 of
        Inl e \<Rightarrow>
          ([IndexSearch question [''episode_title'', ''text''] k,
            Generate (prompt_of question (join ''\<newline>\<newline>'' (map context_part hits))) 400], Inl e)
      | Inr a \<Rightarrow>
          ([IndexSearch question [''episode_title'', ''text''] k,
            Generate (prompt_of question (join ''\<newline>\<newline>'' (map context_part hits))) 400],
           Inr \<lparr>answer = a, sources = map (build_source (episodes self)) hits,
                context_used = length hits\<rparr>))"
    using s h by (rule answer_question_hits)
  show "(snd (answer_question search generate self question k) = Inr r \<longrightarrow>
        sources r = map (build_source (episodes self)) hits
        \<and> length (sources r) = length hits
        \<and> context_used r = length (sources r)
        \<and> (\<forall>i < length hits. sources r ! i = build_source (episodes self) (hits ! i)))
     \<and> (generate (prompt_of question (join ''\<newline>\<newline>'' (map context_part hits))) 400 = Inr a \<longrightarrow>
          snd (answer_question search generate self question k)
            = Inr \<lparr>answer = a, sources = map (build_source (episodes self)) hits,
                   context_used = length hits\<rparr>)
     \<and> (generate (prompt_of question (join ''\<newline>\<newline>'' (map context_part hits))) 400 = Inl e \<longrightarrow>
          snd (answer_question search generate self question k) = Inl e)"
    unfolding eq by (auto split: sum.splits)
qed

theorem answer_question_sources_witness:
  "[\<lparr>hit_episode_id = Some ''ep1'', hit_episode_title = Some ''Pets'',
      hit_episode_number = Some 1, hit_text = Some ''we talk about cats''\<rparr>,
     \<lparr>hit_episode_id = Some ''ep2'', hit_episode_title = Some ''Travel'',
      hit_episode_number = Some 2, hit_text = Some ''we talk about trains''\<rparr>] \<noteq> []
   \<and> snd (answer_question
        (\<lambda>ix query flds k.
           Inr [\<lparr>hit_episode_id = Some ''ep1'', hit_episode_title = Some ''Pets'',
                  hit_episode_number = Some 1, hit_text = Some ''we talk about cats''\<rparr>,
                \<lparr>hit_episode_id = Some ''ep2'', hit_episode_title = Some ''Travel'',
                  hit_episode_number = Some 2, hit_text = Some ''we talk about trains''\<rparr>])
        (\<lambda>prompt max_tokens. Inr ''An answer.'') example_chatbot ''talk'' 3)
     = Inr \<lparr>answer = ''An answer.'',
            sources =
              [[(''episode'', PStr ''Pets''), (''episode_number'', PInt 1),
                (''segment'', PStr ''we talk about cats''), (''timestamp'', PStr []),
                (''video_link'', PStr ''https://youtu.be/p1'')],
               [(''episode'', PStr ''Travel''), (''episode_number'', PInt 2),
                (''segment'', PStr ''we talk about trains''), (''timestamp'', PStr []),
                (''audio_link'', PStr ''https://example.com/e2.mp3'')]],
            context_used = 2\<rparr>"
proof -
  let ?hits = "[\<lparr>hit_episode_id = Some ''ep1'', hit_episode_title = Some ''Pets'',
      hit_episode_number = Some 1, hit_text = Some ''we talk about cats''\<rparr>,
     \<lparr>hit_episode_id = Some ''ep2'', hit_episode_title = Some ''Travel'',
      hit_episode_number = Some 2, hit_text = Some ''we talk about trains''\<rparr>]"
  let ?search = "\<lambda>ix query flds k. Inr ?hits :: backend_exception + hit list"
  let ?generate = "\<lambda>prompt max_tokens. Inr ''An answer.'' :: backend_exception + string"
  have s: "?search (index example_chatbot) ''talk'' [''episode_title'', ''text''] 3 = Inr ?hits"
    by simp
  have ne: "?hits \<noteq> []" by simp
  have g: "?generate (prompt_of ''talk'' (join ''\<newline>\<newline>'' (map context_part ?hits))) 400
             = Inr ''An answer.''"
    by simp
  from answer_question_sources [where search = ?search and self = example_chatbot
      and question = "''talk''" and k = 3 and hits = ?hits and generate = ?generate
      and a = "''An answer.''"] s ne g
  have r: "snd (answer_question ?search ?generate example_chatbot ''talk'' 3)
            = Inr \<lparr>answer = ''An answer.'',
                   sources = map (build_source (episodes example_chatbot)) ?hits,
                   context_used = length ?hits\<rparr>"
    by blast
  have m: "map (build_source (episodes example_chatbot)) ?hits =
              [[(''episode'', PStr ''Pets''), (''episode_number'', PInt 1),
                (''segment'', PStr ''we talk about cats''), (''timestamp'', PStr []),
                (''video_link'', PStr ''https://youtu.be/p1'')],
               [(''episode'', PStr ''Travel''), (''episode_number'', PInt 2),
                (''segment'', PStr ''we talk about trains''), (''timestamp'', PStr []),
                (''audio_link'', PStr ''https://example.com/e2.mp3'')]]"
    by (simp add: build_source_explicit url_of_def example_episodes dict_get_def get_or_def)
  from ne r m show ?thesis by simp
qed

text \<open>
  Claim C4. The source built for a hit has as \<open>segment\<close> the hit's text when it has at
  most 200 characters (exactly 200 included) and its first 200 characters followed by
  \<open>...\<close> when it is longer. The key \<open>video_link\<close> exists exactly when the registry
  holds the hit's episode with a non-empty \<open>video_url\<close>, and then carries that URL;
  likewise \<open>audio_link\<close> and \<open>audio_url\<close>. When the episode is not in the registry, or
  both its URLs are empty, the source has the four keys \<open>episode\<close>, \<open>episode_number\<close>,
  \<open>segment\<close>, \<open>timestamp\<close> and no other.
\<close>

theorem build_source_excerpt_and_links:
  "(length (get_or (hit_text h) []) \<le> 200 \<longrightarrow>
      dict_get (build_source eps h) ''segment'' = Some (PStr (get_or (hit_text h) [])))
   \<and> (length (get_or (hit_text h) []) > 200 \<longrightarrow>
      dict_get (build_source eps h) ''segment''
        = Some (PStr (take 200 (get_or (hit_text h) []) @ ''...'')))
   \<and> (''video_link'' \<in> set (map fst (build_source eps h)) \<longleftrightarrow>
        (\<exists>ep. dict_get eps (get_or (hit_episode_id h) []) = Some ep \<and> video_url ep \<noteq> []))
   \<and> (''audio_link'' \<in> set (map fst (build_source eps h)) \<longleftrightarrow>
        (\<exists>ep. dict_get eps (get_or (hit_episode_id h) []) = Some ep \<and> audio_url ep \<noteq> []))
   \<and> (dict_get eps (get_or (hit_episode_id h) []) = Some ep \<and> video_url ep \<noteq> [] \<longrightarrow>
        dict_get (build_source eps h) ''video_link'' = Some (PStr (video_url ep)))
   \<and> (dict_get eps (get_or (hit_episode_id h) []) = Some ep \<and> audio_url ep \<noteq> [] \<longrightarrow>
        dict_get (build_source eps h) ''audio_link'' = Some (PStr (audio_url ep)))
   \<and> (dict_get eps (get_or (hit_episode_id h) []) = None
        \<or> (dict_get eps (get_or (hit_episode_id h) []) = Some ep
            \<and> video_url ep = [] \<and> audio_url ep = []) \<longrightarrow>
        map fst (build_source eps h) = [''episode'', ''episode_number'', ''segment'', ''timestamp''])
   \<and> (hit_text h = Some (replicate 250 c) \<longrightarrow>
        dict_get (build_source eps h) ''segment'' = Some (PStr (replicate 200 c @ ''...'')))
   \<and> (hit_text h = Some (replicate 150 c) \<longrightarrow>
        dict_get (build_source eps h) ''segment'' = Some (PStr (replicate 150 c)))"
proof -
  have a: "length (get_or (hit_text h) []) \<le> 200 \<longrightarrow>
      dict_get (build_source eps h) ''segment'' = Some (PStr (get_or (hit_text h) []))"
    by (simp add: build_source_segment)
  have b: "length (get_or (hit_text h) []) > 200 \<longrightarrow>
      dict_get (build_source eps h) ''segment''
        = Some (PStr (take 200 (get_or (hit_text h) []) @ ''...''))"
    by (simp add: build_source_segment)
  have c: "''video_link'' \<in> set (map fst (build_source eps h)) \<longleftrightarrow>
        (\<exists>ep. dict_get eps (get_or (hit_episode_id h) []) = Some ep \<and> video_url ep \<noteq> [])"
    unfolding build_source_keys url_of_nonempty_iff [symmetric] by simp
  have d: "''audio_link'' \<in> set (map fst (build_source eps h)) \<longleftrightarrow>
        (\<exists>ep. dict_get eps (get_or (hit_episode_id h) []) = Some ep \<and> audio_url ep \<noteq> [])"
    unfolding build_source_keys url_of_nonempty_iff [symmetric] by simp
  have e: "dict_get eps (get_or (hit_episode_id h) []) = Some ep \<and> video_url ep \<noteq> [] \<longrightarrow>
        dict_get (build_source eps h) ''video_link'' = Some (PStr (video_url ep))"
    by (simp add: build_source_video url_of_def)
  have f: "dict_get eps (get_or (hit_episode_id h) []) = Some ep \<and> audio_url ep \<noteq> [] \<longrightarrow>
        dict_get (build_source eps h) ''audio_link'' = Some (PStr (audio_url ep))"
    by (simp add: build_source_audio url_of_def)
  have g: "dict_get eps (get_or (hit_episode_id h) []) = None
        \<or> (dict_get eps (get_or (hit_episode_id h) []) = Some ep
            \<and> video_url ep = [] \<and> audio_url ep = []) \<longrightarrow>
        map fst (build_source eps h) = [''episode'', ''episode_number'', ''segment'', ''timestamp'']"
    by (auto simp: build_source_keys url_of_def)
  have x: "hit_text h = Some (replicate 250 c) \<longrightarrow>
        dict_get (build_source eps h) ''segment'' = Some (PStr (replicate 200 c @ ''...''))"
    by (simp add: build_source_segment get_or_def)
  have y: "hit_text h = Some (replicate 150 c) \<longrightarrow>
        dict_get (build_source eps h) ''segment'' = Some (PStr (replicate 150 c))"
    by (simp add: build_source_segment get_or_def)
  from a b c d e f g x y show ?thesis by blast
qed

theorem build_source_excerpt_and_links_witness:
  "length (get_or (hit_text \<lparr>hit_episode_id = Some ''ep1'', hit_episode_title = Some ''Pets'',
        hit_episode_number = Some 1, hit_text = Some ''we talk about cats''\<rparr>) []) \<le> 200
   \<and> dict_get (episodes example_chatbot) ''ep1''
        = Some \<lparr>title = ''Pets'', number = 1, video_url = ''https://youtu.be/p1'',
                 audio_url = [], transcript = ''we talk about cats''\<rparr>
   \<and> build_source (episodes example_chatbot)
        \<lparr>hit_episode_id = Some ''ep1'', hit_episode_title = Some ''Pets'',
         hit_episode_number = Some 1, hit_text = Some ''we talk about cats''\<rparr>
       = [(''episode'', PStr ''Pets''), (''episode_number'', PInt 1),
          (''segment'', PStr ''we talk about cats''), (''timestamp'', PStr []),
          (''video_link'', PStr ''https://youtu.be/p1'')]
   \<and> dict_get (build_source (episodes example_chatbot)
         \<lparr>hit_episode_id = Some ''ep1'', hit_episode_title = Some ''Pets'',
          hit_episode_number = Some 1, hit_text = Some ''we talk about cats''\<rparr>) ''segment''
       = Some (PStr ''we talk about cats'')
   \<and> dict_get (build_source (episodes example_chatbot)
         \<lparr>hit_episode_id = Some ''ep1'', hit_episode_title = Some ''Pets'',
          hit_episode_number = Some 1, hit_text = Some ''we talk about cats''\<rparr>) ''video_link''
       = Some (PStr ''https://youtu.be/p1'')
   \<and> dict_get (episodes example_chatbot) ''ep9'' = None
   \<and> map fst (build_source (episodes example_chatbot)
         \<lparr>hit_episode_id = Some ''ep9'', hit_episode_title = None,
          hit_episode_number = None, hit_text = Some (replicate 250 (CHR ''x''))\<rparr>)
       = [''episode'', ''episode_number'', ''segment'', ''timestamp'']
   \<and> dict_get (build_source (episodes example_chatbot)
         \<lparr>hit_episode_id = Some ''ep9'', hit_episode_title = None,
          hit_episode_number = None, hit_text = Some (replicate 250 (CHR ''x''))\<rparr>) ''segment''
       = Some (PStr (replicate 200 (CHR ''x'') @ ''...''))"
proof -
  let ?E = "episodes example_chatbot"
  let ?h1 = "\<lparr>hit_episode_id = Some ''ep1'', hit_episode_title = Some ''Pets'',
        hit_episode_number = Some 1, hit_text = Some ''we talk about cats''\<rparr>"
  let ?ep1 = "\<lparr>title = ''Pets'', number = 1, video_url = ''https://youtu.be/p1'',
                 audio_url = [], transcript = ''we talk about cats''\<rparr>"
  let ?h9 = "\<lparr>hit_episode_id = Some ''ep9'', hit_episode_title = None,
          hit_episode_number = None, hit_text = Some (replicate 250 (CHR ''x''))\<rparr>"
  have l: "length (get_or (hit_text ?h1) []) \<le> 200" by (simp add: get_or_def)
  have g1: "dict_get ?E (get_or (hit_episode_id ?h1) []) = Some ?ep1"
    by (simp add: example_episodes dict_get_def get_or_def)
  have v: "video_url ?ep1 \<noteq> []" by simp
  have g9: "dict_get ?E (get_or (hit_episode_id ?h9) []) = None"
    by (simp add: example_episodes dict_get_def get_or_def)
  have t9: "hit_text ?h9 = Some (replicate 250 (CHR ''x''))" by simp
  note i1 = build_source_excerpt_and_links [of ?h1 ?E ?ep1 "CHR ''x''"]
  note i9 = build_source_excerpt_and_links [of ?h9 ?E ?ep1 "CHR ''x''"]
  from i1 l have s1: "dict_get (build_source ?E ?h1) ''segment'' = Some (PStr (get_or (hit_text ?h1) []))"
    by blast
  from i1 g1 v have v1: "dict_get (build_source ?E ?h1) ''video_link'' = Some (PStr (video_url ?ep1))"
    by blast
  from i9 g9 have k9: "map fst (build_source ?E ?h9) = [''episode'', ''episode_number'', ''segment'', ''timestamp'']"
    by blast
  from i9 t9 have s9: "dict_get (build_source ?E ?h9) ''segment'' = Some (PStr (replicate 200 (CHR ''x'') @ ''...''))"
    by blast
  have b1: "build_source ?E ?h1
       = [(''episode'', PStr ''Pets''), (''episode_number'', PInt 1),
          (''segment'', PStr ''we talk about cats''), (''timestamp'', PStr []),
          (''video_link'', PStr ''https://youtu.be/p1'')]"
    by (simp add: build_source_explicit url_of_def example_episodes dict_get_def get_or_def)
  have g1': "dict_get ?E ''ep1'' = Some ?ep1" using g1 by (simp add: get_or_def)
  have g9': "dict_get ?E ''ep9'' = None" using g9 by (simp add: get_or_def)
  from s1 have s1': "dict_get (build_source ?E ?h1) ''segment'' = Some (PStr ''we talk about cats'')"
    by (simp add: get_or_def)
  from v1 have v1': "dict_get (build_source ?E ?h1) ''video_link'' = Some (PStr ''https://youtu.be/p1'')"
    by simp
  from l g1' b1 s1' v1' g9' k9 s9 show ?thesis by blast
qed

text \<open>
  Claim C2. When the index returns no hit, \<open>answer_question\<close> returns the fixed sentence
  \<open>no_information\<close>, no sources and \<open>context_used = 0\<close>. The only call it makes is the
  search: no call to the generator is recorded, and the outcome is the same whatever
  the generator would do.
\<close>

theorem answer_question_no_hits:
  "search (index self) question [''episode_title'', ''text''] k = Inr [] \<longrightarrow>
     answer_question search generate self question k
       = ([IndexSearch question [''episode_title'', ''text''] k],
          Inr \<lparr>answer =
                 ''I couldn't find relevant information in the podcast transcripts to answer your question.'',
               sources = [], context_used = 0\<rparr>)
     \<and> filter is_generate (fst (answer_question search generate self question k)) = []
     \<and> answer_question search generate' self question k
         = answer_question search generate self question k"
proof
  assume s: "search (index self) question [''episode_title'', ''text''] k = Inr []"
  have r: "answer_question search g self question k
       = ([IndexSearch question [''episode_title'', ''text''] k],
          Inr \<lparr>answer = no_information, sources = [], context_used = 0\<rparr>)" for g
    using s by (simp add: answer_question_def)
  have t: "filter is_generate [IndexSearch question [''episode_title'', ''text''] k] = []"
    by simp
  show "answer_question search generate self question k
       = ([IndexSearch question [''episode_title'', ''text''] k],
          Inr \<lparr>answer =
                 ''I couldn't find relevant information in the podcast transcripts to answer your question.'',
               sources = [], context_used = 0\<rparr>)
     \<and> filter is_generate (fst (answer_question search generate self question k)) = []
     \<and> answer_question search generate' self question k
         = answer_question search generate self question k"
    unfolding r using t by (simp add: no_information_def)
qed

theorem answer_question_no_hits_witness:
  "(\<lambda>ix query flds k. Inr []) (index example_chatbot) ''submarines''
       [''episode_title'', ''text''] (3 :: int)
     = (Inr [] :: backend_exception + hit list)
   \<and> answer_question (\<lambda>ix query flds k. Inr []) (\<lambda>prompt max_tokens. Inr ''An answer.'')
        example_chatbot ''submarines'' 3
       = ([IndexSearch ''submarines'' [''episode_title'', ''text''] 3],
          Inr \<lparr>answer =
                 ''I couldn't find relevant information in the podcast transcripts to answer your question.'',
               sources = [], context_used = 0\<rparr>)"
proof -
  let ?search = "\<lambda>ix query flds k. Inr [] :: backend_exception + hit list"
  let ?generate = "\<lambda>prompt max_tokens. Inr ''An answer.'' :: backend_exception + string"
  have s: "?search (index example_chatbot) ''submarines'' [''episode_title'', ''text''] 3 = Inr []"
    by simp
  from answer_question_no_hits [where search = ?search and self = example_chatbot
      and question = "''submarines''" and k = 3 and generate = ?generate] s
  show ?thesis by simp
qed

text \<open>
  Claim C8, as stated, fails: with \<open>max_context_segments = 0\<close> the index is asked for 0
  results, and with \<open>-2\<close> for \<open>-2\<close>, not for the default 3.
\<close>

theorem answer_question_max_results_counterexample:
  "hd (fst (answer_question (\<lambda>ix query flds k. Inr []) (\<lambda>prompt max_tokens. Inr ''An answer.'')
              example_chatbot ''talk'' 0))
     = IndexSearch ''talk'' [''episode_title'', ''text''] 0
   \<and> hd (fst (answer_question (\<lambda>ix query flds k. Inr []) (\<lambda>prompt max_tokens. Inr ''An answer.'')
                example_chatbot ''talk'' (- 2)))
     = IndexSearch ''talk'' [''episode_title'', ''text''] (- 2)
   \<and> IndexSearch ''talk'' [''episode_title'', ''text''] 0
       \<noteq> IndexSearch ''talk'' [''episode_title'', ''text''] 3
   \<and> IndexSearch ''talk'' [''episode_title'', ''text''] (- 2)
       \<noteq> IndexSearch ''talk'' [''episode_title'', ''text''] 3"
  by (simp add: answer_question_def)

text \<open>
  Claim C8, amended. \<open>answer_question\<close> hands \<open>max_context_segments\<close> to the index
  unchanged as \<open>max_results\<close>, whatever its value; it makes exactly one search call,
  the first call of all. The value 3 is what is passed when the caller omits the
  argument.
\<close>

theorem answer_question_max_results:
  "hd (fst (answer_question search generate self question k))
     = IndexSearch question [''episode_title'', ''text''] k
   \<and> filter (\<lambda>c. \<not> is_generate c) (fst (answer_question search generate self question k))
     = [IndexSearch question [''episode_title'', ''text''] k]
   \<and> hd (fst (answer_question_default search generate self question))
     = IndexSearch question [''episode_title'', ''text''] 3"
  by (simp add: answer_question_default_def answer_question_def generate_answer_def
      split: sum.splits prod.splits)

lemma strip_blank:
  assumes "list_all is_space q"
  shows "strip q = []"
proof -
  from assms have d: "dropWhile is_space q = []" by (simp add: list_all_iff)
  show ?thesis unfolding strip_def d by simp
qed

lemma strip_blank_iff: "strip q = [] \<longleftrightarrow> list_all is_space q"
proof
  assume "strip q = []"
  then have "dropWhile is_space (rev (dropWhile is_space q)) = []"
    by (simp add: strip_def)
  then have "\<forall>c \<in> set (dropWhile is_space q). is_space c"
    by simp
  moreover have "dropWhile is_space q \<noteq> [] \<Longrightarrow> \<not> is_space (hd (dropWhile is_space q))"
    by (rule hd_dropWhile)
  ultimately have "dropWhile is_space q = []"
    by (cases "dropWhile is_space q") auto
  then show "list_all is_space q"
    by (simp add: list_all_iff)
qed (rule strip_blank)

text \<open>
  Claim C9, as stated, fails for \<open>answer_question\<close>: it does not look at the question
  before searching. A question of three spaces is sent to the index, and the call
  returns a result.
\<close>

theorem answer_question_blank_counterexample:
  "strip ''   '' = []
   \<and> answer_question (\<lambda>ix query flds k. Inr []) (\<lambda>prompt max_tokens. Inr ''An answer.'')
        new_chatbot ''   '' 3
       = ([IndexSearch ''   '' [''episode_title'', ''text''] 3],
          Inr \<lparr>answer = no_information, sources = [], context_used = 0\<rparr>)"
  by (simp add: answer_question_def new_chatbot_def strip_def is_space_def)

text \<open>
  Claim C9, amended. The REST endpoint \<open>ask_question\<close> rejects a question that is empty
  or consists of whitespace only: with the chatbot loaded it raises the HTTP error 400
  "Question cannot be empty", and it has then made no call to the index or to the
  generator. \<open>answer_question\<close> itself does not validate the question: its first call
  is the search, with the question as it was given.
\<close>

theorem ask_question_rejects_blank:
  "(list_all is_space question \<longrightarrow>
      ask_question search generate (Some cb) question k
        = ([], Inl (HTTPException 400 ''Question cannot be empty'')))
   \<and> hd (fst (answer_question search generate cb question k))
       = IndexSearch question [''episode_title'', ''text''] k"
proof -
  have a: "list_all is_space question \<longrightarrow>
      ask_question search generate (Some cb) question k
        = ([], Inl (HTTPException 400 ''Question cannot be empty''))"
    by (simp add: ask_question_def strip_blank)
  have b: "hd (fst (answer_question search generate cb question k))
       = IndexSearch question [''episode_title'', ''text''] k"
    by (simp add: answer_question_def generate_answer_def split: sum.splits prod.splits)
  from a b show ?thesis by blast
qed

theorem ask_question_rejects_blank_witness:
  "list_all is_space ('' '' @ [CHR 0x09, CHR 0x0A])
   \<and> ask_question (\<lambda>ix query flds k. Inr []) (\<lambda>prompt max_tokens. Inr ''An answer.'')
        (Some example_chatbot) ('' '' @ [CHR 0x09, CHR 0x0A]) 3
      = ([], Inl (HTTPException 400 ''Question cannot be empty''))"
proof -
  have b: "list_all is_space ('' '' @ [CHR 0x09, CHR 0x0A])"
    by (simp add: is_space_def)
  from ask_question_rejects_blank [where question = "'' '' @ [CHR 0x09, CHR 0x0A]"
      and search = "\<lambda>ix query flds k. Inr []"
      and generate = "\<lambda>prompt max_tokens. Inr ''An answer.''" and cb = example_chatbot
      and k = 3] b
  show ?thesis by blast
qed

section \<open>Adding an episode id again\<close>



lemma read_record_complete:
  "complete e \<Longrightarrow> \<exists>i ep d. read_record e = Inr (i, ep, d) \<and> j_episode_id e = Some i"
  by (auto simp: complete_def read_record_def)



lemma load_loop_error:
  "list_all complete good \<Longrightarrow> read_record bad = Inl err \<Longrightarrow>
   load_loop eps docs (good @ bad # rest)
     = (Some err, foldl store_record eps good, docs @ concat (map docs_of_record good))"
proof (induction good arbitrary: eps docs)
  case Nil
  then show ?case by simp
next
  case (Cons e js)
  then obtain i ep d where r: "read_record e = Inr (i, ep, d)"
    using read_record_complete [of e] by auto
  from Cons have "list_all complete js" by simp
  from Cons.IH [OF this Cons.prems(2)] r show ?case
    by (simp add: store_record_def docs_of_record_def)
qed













end
